theory Spec2Isabelle
  imports Main "HOL-Library.Sublist"
begin

section \<open>Python values shared by all modules\<close>

text \<open>
  Python strings are modelled as \<open>string\<close>. Exceptions are values: every function of
  the source that can raise returns \<open>exn + 'a\<close>, with \<open>Inl\<close> for the raised exception.
  The constructor names the exception class, the argument is its message
  (\<open>str(e)\<close> in Python).
\<close>

datatype exn =
    ValueError string
  | RuntimeError string
  | NotImplementedError string
  | AttributeError string
  | OSError string
  | OtherException string

fun exn_str :: "exn \<Rightarrow> string" where
  "exn_str (ValueError m) = m"
| "exn_str (RuntimeError m) = m"
| "exn_str (NotImplementedError m) = m"
| "exn_str (AttributeError m) = m"
| "exn_str (OSError m) = m"
| "exn_str (OtherException m) = m"

text \<open>
  \<open>except ValueError\<close> and \<open>except RuntimeError\<close> match by class. In Python
  \<open>NotImplementedError\<close> is a subclass of \<open>RuntimeError\<close>.
\<close>

fun is_ValueError :: "exn \<Rightarrow> bool" where
  "is_ValueError (ValueError m) = True"
| "is_ValueError e = False"

fun is_RuntimeError :: "exn \<Rightarrow> bool" where
  "is_RuntimeError (RuntimeError m) = True"
| "is_RuntimeError (NotImplementedError m) = True"
| "is_RuntimeError e = False"

text \<open>
  The process environment \<open>os.environ\<close> is a snapshot passed explicitly.
  \<open>os.environ.get(k)\<close> is \<open>env k\<close>; Python's truth test of the result holds for a
  variable that is set to a non-empty string. \<open>a or b\<close> yields \<open>a\<close> when \<open>a\<close> is
  truthy and \<open>b\<close> otherwise.
\<close>

type_synonym environ = "string \<rightharpoonup> string"

fun truthy :: "string option \<Rightarrow> bool" where
  "truthy None = False"
| "truthy (Some v) = (v \<noteq> [])"

definition py_or :: "string option \<Rightarrow> string option \<Rightarrow> string option" where
  "py_or a b = (if truthy a then a else b)"

text \<open>
  The methods of \<open>str\<close> the program calls. A \<open>char\<close> stands for the code point of the
  same number (U+0000 to U+00FF). \<open>str_strip\<close> removes the characters Python counts as
  whitespace from both ends; \<open>str_lower\<close> and \<open>str_upper\<close> follow Python's case
  mapping, with two code points kept as they are by \<open>str_upper\<close> where Python maps
  them beyond U+00FF (U+00B5 and U+00FF); \<open>str_split\<close> is \<open>s.split(c)\<close> for a
  one-character separator, \<open>str_split_once\<close> is \<open>s.split(c, 1)\<close> for a string that
  contains \<open>c\<close>, and \<open>str_replace_char\<close> is \<open>s.replace(c, d)\<close> for one-character
  arguments.
\<close>

definition char_isspace :: "char \<Rightarrow> bool" where
  "char_isspace c =
     (let n = (of_char c :: nat)
      in (9 \<le> n \<and> n \<le> 13) \<or> (28 \<le> n \<and> n \<le> 32) \<or> n = 133 \<or> n = 160)"

definition str_strip :: "string \<Rightarrow> string" where
  "str_strip s = rev (dropWhile char_isspace (rev (dropWhile char_isspace s)))"

definition char_lower :: "char \<Rightarrow> char" where
  "char_lower c =
     (let n = (of_char c :: nat)
      in if (65 \<le> n \<and> n \<le> 90) \<or> (192 \<le> n \<and> n \<le> 222 \<and> n \<noteq> 215)
         then char_of (n + 32) else c)"

definition str_lower :: "string \<Rightarrow> string" where
  "str_lower s = map char_lower s"

definition char_upper :: "char \<Rightarrow> string" where
  "char_upper c =
     (let n = (of_char c :: nat)
      in if (97 \<le> n \<and> n \<le> 122) \<or> (224 \<le> n \<and> n \<le> 254 \<and> n \<noteq> 247)
         then [char_of (n - 32)]
         else if n = 223 then ''SS''
         else [c])"

definition str_upper :: "string \<Rightarrow> string" where
  "str_upper s = concat (map char_upper s)"

fun str_split :: "char \<Rightarrow> string \<Rightarrow> string list" where
  "str_split c [] = [[]]"
| "str_split c (x # xs) =
     (if x = c then [] # str_split c xs
      else (case str_split c xs of
              [] \<Rightarrow> [[x]]
            | y # ys \<Rightarrow> (x # y) # ys))"

definition str_split_once :: "char \<Rightarrow> string \<Rightarrow> string \<times> string" where
  "str_split_once c s = (takeWhile (\<lambda>x. x \<noteq> c) s, tl (dropWhile (\<lambda>x. x \<noteq> c) s))"

definition str_replace_char :: "char \<Rightarrow> char \<Rightarrow> string \<Rightarrow> string" where
  "str_replace_char c d s = map (\<lambda>x. if x = c then d else x) s"

text \<open>
  What the program reads from outside itself is gathered in a \<open>world\<close>:
  the process environment \<open>os.environ\<close>; what \<open>json.loads\<close> does on a string;
  the exception, if any, that setting the log level to
  \<open>getattr(logging, name, logging.INFO)\<close> raises for a name;
  \<open>shutil.which\<close>; whether \<open>os.chdir\<close> to a path succeeds; what a child process does
  for an argument vector, in a working directory and with an environment
  (\<open>subprocess.run\<close> raises, or the child exits with a code and its two captured
  streams); and \<open>os.getcwd()\<close> at start.

  \<open>json.loads\<close> raises \<open>JSONDecodeError\<close>, or returns a dict, given by the items
  \<open>(str(k), str(v))\<close> of its entries in order, or returns a value that is not a
  dict, or raises another exception.
\<close>

datatype json_result =
    JSONDecodeError
  | JsonDict "(string \<times> string) list"
  | JsonOther
  | JsonRaises exn

record world =
  environ :: environ
  json_loads :: "string \<Rightarrow> json_result"
  level_error :: "string \<Rightarrow> exn option"
  which :: "string \<Rightarrow> string option"
  dir_ok :: "string \<Rightarrow> bool"
  child_process :: "string list \<Rightarrow> string \<Rightarrow> environ \<Rightarrow> exn + (int \<times> string \<times> string)"
  getcwd :: string


section \<open>azure\_auth.py\<close>

datatype AuthMethod = OIDC | SERVICE_PRINCIPAL | MANAGED_IDENTITY | CLI

text \<open>
  \<open>AzureCredentials\<close>: the dataclass fields, with the defaults \<open>""\<close> of the optional
  ones written by the constructors below.
\<close>

record AzureCredentials =
  subscription_id :: string
  tenant_id :: string
  client_id :: string
  client_secret :: string
  token :: string
  auth_method :: AuthMethod

text \<open>
  \<open>AzureAuthenticator\<close>: the three attributes set by \<open>__init__\<close>; the fields carry the
  prefix \<open>auth_\<close> because a record field name is global.
\<close>

record AzureAuthenticator =
  auth_subscription_id :: string
  auth_tenant_id :: string
  auth_client_id :: string

definition AzureAuthenticator_init ::
  "string \<Rightarrow> string \<Rightarrow> string option \<Rightarrow> AzureAuthenticator" where
  "AzureAuthenticator_init sub tenant client =
     \<lparr> auth_subscription_id = sub,
       auth_tenant_id = tenant,
       auth_client_id = (case client of None \<Rightarrow> [] | Some c \<Rightarrow> c) \<rparr>"

definition detect_auth_method :: "environ \<Rightarrow> AuthMethod" where
  "detect_auth_method env =
     (if truthy (env ''ACTIONS_ID_TOKEN_REQUEST_TOKEN'') then OIDC
      else if truthy (env ''AZURE_CLIENT_SECRET'') \<or> truthy (env ''ARM_CLIENT_SECRET'')
        then SERVICE_PRINCIPAL
      else if truthy (env ''MSI_ENDPOINT'') \<or> truthy (env ''IDENTITY_ENDPOINT'')
        then MANAGED_IDENTITY
      else CLI)"

definition authenticate_oidc :: "AzureAuthenticator \<Rightarrow> exn + AzureCredentials" where
  "authenticate_oidc self =
     Inl (NotImplementedError
       (''OIDC authentication is not yet implemented. '' @
        ''As a workaround, use the 'azure/login' action before calling avm-action. '' @
        ''See docs/architecture.md for planned implementation.''))"

definition authenticate_service_principal ::
  "AzureAuthenticator \<Rightarrow> environ \<Rightarrow> exn + AzureCredentials" where
  "authenticate_service_principal self env =
     (let secret = py_or (env ''AZURE_CLIENT_SECRET'') (env ''ARM_CLIENT_SECRET'');
          missing = ValueError
            (''Service principal authentication requires AZURE_CLIENT_SECRET '' @
             ''or ARM_CLIENT_SECRET environment variable.'')
      in case secret of
           None \<Rightarrow> Inl missing
         | Some s \<Rightarrow>
             if s = [] then Inl missing
             else
               Inr \<lparr> subscription_id = auth_subscription_id self,
                     tenant_id = auth_tenant_id self,
                     client_id = auth_client_id self,
                     client_secret = s,
                     token = [],
                     auth_method = SERVICE_PRINCIPAL \<rparr>)"

definition authenticate_cli :: "AzureAuthenticator \<Rightarrow> AzureCredentials" where
  "authenticate_cli self =
     \<lparr> subscription_id = auth_subscription_id self,
       tenant_id = auth_tenant_id self,
       client_id = auth_client_id self,
       client_secret = [],
       token = [],
       auth_method = CLI \<rparr>"

definition authenticate :: "AzureAuthenticator \<Rightarrow> environ \<Rightarrow> exn + AzureCredentials" where
  "authenticate self env =
     (case detect_auth_method env of
        OIDC \<Rightarrow> authenticate_oidc self
      | SERVICE_PRINCIPAL \<Rightarrow> authenticate_service_principal self env
      | MANAGED_IDENTITY \<Rightarrow>
          Inl (NotImplementedError
            (''Managed Identity authentication not yet implemented. '' @
             ''As a workaround, use the 'azure/login' action with managed identity, '' @
             ''or use CLI authentication by running 'az login' first.''))
      | CLI \<Rightarrow> Inr (authenticate_cli self))"

text \<open>
  \<open>set_terraform_env_vars\<close> builds a dict by a literal and conditional item
  assignments; the dict is a map and each assignment a map update.
\<close>

definition set_terraform_env_vars :: "AzureCredentials \<Rightarrow> (string \<rightharpoonup> string)" where
  "set_terraform_env_vars credentials =
     (let env_vars = [''ARM_SUBSCRIPTION_ID'' \<mapsto> subscription_id credentials,
                      ''ARM_TENANT_ID'' \<mapsto> tenant_id credentials];
          env_vars = (if client_id credentials \<noteq> []
                      then env_vars(''ARM_CLIENT_ID'' \<mapsto> client_id credentials)
                      else env_vars);
          env_vars = (if client_secret credentials \<noteq> []
                      then env_vars(''ARM_CLIENT_SECRET'' \<mapsto> client_secret credentials)
                      else env_vars);
          env_vars = (if token credentials \<noteq> []
                      then env_vars(''ARM_OIDC_TOKEN'' \<mapsto> token credentials,
                                    ''ARM_USE_OIDC'' \<mapsto> ''true'')
                      else env_vars)
      in env_vars)"

definition create_authenticator_from_env :: "environ \<Rightarrow> AzureAuthenticator option" where
  "create_authenticator_from_env env =
     (let sub = (case env ''INPUT_AZURE_SUBSCRIPTION_ID'' of None \<Rightarrow> [] | Some v \<Rightarrow> v);
          tenant = (case env ''INPUT_AZURE_TENANT_ID'' of None \<Rightarrow> [] | Some v \<Rightarrow> v);
          client = (case env ''INPUT_AZURE_CLIENT_ID'' of None \<Rightarrow> [] | Some v \<Rightarrow> v)
      in if sub = [] \<or> tenant = [] then None
         else Some (AzureAuthenticator_init sub tenant (Some client)))"


section \<open>config.py\<close>

datatype TerraformCommand = INIT | VALIDATE | PLAN | APPLY | DESTROY

fun TerraformCommand_value :: "TerraformCommand \<Rightarrow> string" where
  "TerraformCommand_value INIT = ''init''"
| "TerraformCommand_value VALIDATE = ''validate''"
| "TerraformCommand_value PLAN = ''plan''"
| "TerraformCommand_value APPLY = ''apply''"
| "TerraformCommand_value DESTROY = ''destroy''"

fun TerraformCommand_str :: "TerraformCommand \<Rightarrow> string" where
  "TerraformCommand_str INIT = ''TerraformCommand.INIT''"
| "TerraformCommand_str VALIDATE = ''TerraformCommand.VALIDATE''"
| "TerraformCommand_str PLAN = ''TerraformCommand.PLAN''"
| "TerraformCommand_str APPLY = ''TerraformCommand.APPLY''"
| "TerraformCommand_str DESTROY = ''TerraformCommand.DESTROY''"

datatype LogLevel = DEBUG | INFO | WARNING | ERROR

record AzureConfig =
  azure_subscription_id :: string
  azure_tenant_id :: string
  azure_client_id :: string

definition is_configured :: "AzureConfig \<Rightarrow> bool" where
  "is_configured a = (azure_subscription_id a \<noteq> [] \<and> azure_tenant_id a \<noteq> [])"

text \<open>
  \<open>ActionConfig\<close>. \<open>var_overrides\<close> is a \<open>dict[str, str]\<close>; its \<open>items()\<close> are
  iterated in insertion order, so it is an association list in that order.
\<close>

record ActionConfig =
  tf_directory :: string
  tfvars_files :: "string list"
  backend_config_file :: string
  command :: TerraformCommand
  workspace :: string
  azure :: AzureConfig
  var_overrides :: "(string \<times> string) list"
  log_level :: LogLevel

text \<open>
  \<open>str.isalnum()\<close>: the string is non-empty and every character is alphanumeric.
  A \<open>char\<close> stands for the code point of the same number (U+0000 to U+00FF); the
  table lists the code points of that range that Python counts as alphabetic, decimal,
  digit or numeric.
\<close>

definition char_isalnum :: "char \<Rightarrow> bool" where
  "char_isalnum c =
     (let n = (of_char c :: nat)
      in (48 \<le> n \<and> n \<le> 57) \<or> (65 \<le> n \<and> n \<le> 90) \<or> (97 \<le> n \<and> n \<le> 122)
         \<or> n = 170 \<or> n = 178 \<or> n = 179 \<or> n = 181 \<or> n = 185 \<or> n = 186
         \<or> n = 188 \<or> n = 189 \<or> n = 190
         \<or> (192 \<le> n \<and> n \<le> 214) \<or> (216 \<le> n \<and> n \<le> 246) \<or> 248 \<le> n)"

definition isalnum :: "string \<Rightarrow> bool" where
  "isalnum s = (s \<noteq> [] \<and> list_all char_isalnum s)"

text \<open>\<open>s.replace(c, "")\<close> for a one-character \<open>c\<close> removes every occurrence of it.\<close>

definition remove_char :: "char \<Rightarrow> string \<Rightarrow> string" where
  "remove_char c s = filter (\<lambda>x. x \<noteq> c) s"

text \<open>
  \<open>ActionConfig.validate\<close>. The test \<open>isinstance(self.command, TerraformCommand)\<close>
  holds for every value of the type \<open>TerraformCommand\<close>, so its branch adds nothing.
\<close>

definition validate :: "ActionConfig \<Rightarrow> string list" where
  "validate self =
     (let errors = [];
          errors = (if tf_directory self = []
                    then errors @ [''tf_directory cannot be empty''] else errors);
          errors = (if workspace self \<noteq> []
                       \<and> \<not> isalnum (remove_char CHR ''_'' (remove_char CHR ''-'' (workspace self)))
                    then errors @ [''Invalid workspace name: '' @ workspace self]
                    else errors)
      in errors)"


text \<open>
  The parsers of config.py; their names there start with an underscore.
\<close>

definition parse_tfvars_files :: "string \<Rightarrow> string list" where
  "parse_tfvars_files value =
     (if value = [] then []
      else map str_strip (filter (\<lambda>f. str_strip f \<noteq> []) (str_split CHR '','' value)))"

text \<open>
  Item assignment \<open>d[key] = val\<close> on a dict kept in insertion order: an existing key
  keeps its place, a new one goes last.
\<close>

fun dict_set :: "(string \<times> string) list \<Rightarrow> string \<Rightarrow> string \<Rightarrow> (string \<times> string) list" where
  "dict_set [] key val = [(key, val)]"
| "dict_set ((k, v) # d) key val =
     (if k = key then (k, val) # d else (k, v) # dict_set d key val)"

definition parse_var_overrides :: "world \<Rightarrow> string \<Rightarrow> exn + (string \<times> string) list" where
  "parse_var_overrides w value =
     (if value = [] then Inr []
      else
        (let key_value =
               foldl (\<lambda>overrides pair.
                        (let pair = str_strip pair
                         in if CHR ''='' \<in> set pair then
                              (let (key, val) = str_split_once CHR ''='' pair
                               in dict_set overrides (str_strip key) (str_strip val))
                            else overrides))
                 [] (str_split CHR '','' (str_replace_char (CHR 0x0A) CHR '','' value))
         in case json_loads w value of
              JsonDict items \<Rightarrow> Inr items
            | JsonRaises e \<Rightarrow> Inl e
            | JSONDecodeError \<Rightarrow> Inr key_value
            | JsonOther \<Rightarrow> Inr key_value))"

definition parse_command :: "string \<Rightarrow> exn + TerraformCommand" where
  "parse_command value =
     (let value = str_strip (str_lower value)
      in case map_of
                [(''init'', INIT), (''validate'', VALIDATE), (''plan'', PLAN),
                 (''apply'', APPLY), (''destroy'', DESTROY)] value of
           Some c \<Rightarrow> Inr c
         | None \<Rightarrow>
             Inl (ValueError
               (''Invalid command '' @ [CHR 0x27] @ value @ [CHR 0x27] @
                ''. Valid commands: ['init', 'validate', 'plan', 'apply', 'destroy']'')))"

definition parse_log_level :: "string \<Rightarrow> LogLevel" where
  "parse_log_level value =
     (let value = str_strip (str_upper value)
      in case map_of
                [(''DEBUG'', DEBUG), (''INFO'', INFO), (''WARNING'', WARNING),
                 (''ERROR'', ERROR)] value of
           Some l \<Rightarrow> l
         | None \<Rightarrow> INFO)"

text \<open>
  \<open>load_config_from_env\<close>. \<open>get_input\<close> is its inner function. The arguments of the
  \<open>ActionConfig\<close> constructor are evaluated in the order written, so a command that
  does not parse raises before the overrides are parsed.
\<close>

definition get_input :: "world \<Rightarrow> string \<Rightarrow> string \<Rightarrow> string" where
  "get_input w name default_value =
     (case environ w (''INPUT_'' @ str_upper name) of
        None \<Rightarrow> default_value
      | Some v \<Rightarrow> v)"

definition load_config_from_env :: "world \<Rightarrow> exn + ActionConfig" where
  "load_config_from_env w =
     (let azure_config =
            \<lparr> azure_subscription_id = get_input w ''azure_subscription_id'' [],
              azure_tenant_id = get_input w ''azure_tenant_id'' [],
              azure_client_id = get_input w ''azure_client_id'' [] \<rparr>;
          command_str = get_input w ''command'' ''plan'';
          log_level_str = get_input w ''log_level'' ''INFO''
      in case parse_command command_str of
           Inl e \<Rightarrow> Inl e
         | Inr c \<Rightarrow>
             (case parse_var_overrides w (get_input w ''var_overrides'' []) of
                Inl e \<Rightarrow> Inl e
              | Inr overrides \<Rightarrow>
                  Inr \<lparr> tf_directory = get_input w ''tf_directory'' ''.'',
                        tfvars_files = parse_tfvars_files (get_input w ''tfvars_files'' []),
                        backend_config_file = get_input w ''backend_config_file'' [],
                        command = c,
                        workspace = get_input w ''workspace'' ''default'',
                        azure = azure_config,
                        var_overrides = overrides,
                        log_level = parse_log_level log_level_str \<rparr>))"


section \<open>terraform\_runner.py\<close>

record CommandResult =
  return_code :: int
  stdout :: string
  stderr :: string
  result_command :: "string list"

record TerraformRunner =
  config :: ActionConfig
  terraform_path :: string
  dry_run :: bool

text \<open>
  The calls a run makes are recorded in a trace: building the workspace command,
  building the main command, a call of \<open>run_command\<close>, a successful \<open>os.chdir\<close>, and a
  call of \<open>subprocess.run\<close> with its argument vector, the working directory it runs in
  and the \<open>env\<close> keyword argument it is given (\<open>None\<close> when the call passes none).
\<close>

datatype event =
    BuiltWorkspace "string list"
  | BuiltMain "string list"
  | RunCommand "string list"
  | Chdir string
  | Spawn "string list" string "(string \<times> string) list option"

record rstate =
  cwd :: string
  trace :: "event list"

definition log_event :: "event \<Rightarrow> rstate \<Rightarrow> rstate" where
  "log_event e st = st\<lparr>trace := trace st @ [e]\<rparr>"

definition find_terraform :: "world \<Rightarrow> exn + string" where
  "find_terraform w =
     (let terraform = which w ''terraform''
      in case terraform of
           Some p \<Rightarrow>
             if p \<noteq> [] then Inr p
             else Inl (RuntimeError
               (''Terraform binary not found in PATH. '' @
                ''Please ensure Terraform is installed.''))
         | None \<Rightarrow>
             Inl (RuntimeError
               (''Terraform binary not found in PATH. '' @
                ''Please ensure Terraform is installed.'')))"

definition TerraformRunner_init ::
  "ActionConfig \<Rightarrow> string option \<Rightarrow> bool \<Rightarrow> world \<Rightarrow> exn + TerraformRunner" where
  "TerraformRunner_init cfg path dry w =
     (case (case path of
              Some p \<Rightarrow> if p \<noteq> [] then Inr p else find_terraform w
            | None \<Rightarrow> find_terraform w) of
        Inl e \<Rightarrow> Inl e
      | Inr p \<Rightarrow> Inr \<lparr> config = cfg, terraform_path = p, dry_run = dry \<rparr>)"

text \<open>
  The builders append to a list in \<open>for\<close> loops; each loop is a left fold whose step
  appends one flag.
\<close>

definition build_init_command :: "TerraformRunner \<Rightarrow> string list" where
  "build_init_command self =
     (let cmd = [terraform_path self, ''init'', ''-input=false''];
          cmd = (if backend_config_file (config self) \<noteq> []
                 then cmd @ [''-backend-config='' @ backend_config_file (config self)]
                 else cmd)
      in cmd)"

definition build_validate_command :: "TerraformRunner \<Rightarrow> string list" where
  "build_validate_command self = [terraform_path self, ''validate'']"

definition build_plan_command :: "TerraformRunner \<Rightarrow> string option \<Rightarrow> string list" where
  "build_plan_command self out_file =
     (let cmd = [terraform_path self, ''plan'', ''-input=false''];
          cmd = foldl (\<lambda>cmd tfvar_file. cmd @ [''-var-file='' @ tfvar_file])
                  cmd (tfvars_files (config self));
          cmd = foldl (\<lambda>cmd (key, value). cmd @ [''-var='' @ key @ ''='' @ value])
                  cmd (var_overrides (config self));
          cmd = (case out_file of
                   Some f \<Rightarrow> if f \<noteq> [] then cmd @ [''-out='' @ f] else cmd
                 | None \<Rightarrow> cmd)
      in cmd)"

definition build_apply_command :: "TerraformRunner \<Rightarrow> string option \<Rightarrow> string list" where
  "build_apply_command self plan_file =
     (let cmd = [terraform_path self, ''apply'', ''-input=false'', ''-auto-approve'']
      in if truthy plan_file then
           (case plan_file of Some f \<Rightarrow> cmd @ [f] | None \<Rightarrow> cmd)
         else
           (let cmd = foldl (\<lambda>cmd tfvar_file. cmd @ [''-var-file='' @ tfvar_file])
                        cmd (tfvars_files (config self));
                cmd = foldl (\<lambda>cmd (key, value). cmd @ [''-var='' @ key @ ''='' @ value])
                        cmd (var_overrides (config self))
            in cmd))"

definition build_destroy_command :: "TerraformRunner \<Rightarrow> string list" where
  "build_destroy_command self =
     (let cmd = [terraform_path self, ''destroy'', ''-input=false'', ''-auto-approve''];
          cmd = foldl (\<lambda>cmd tfvar_file. cmd @ [''-var-file='' @ tfvar_file])
                  cmd (tfvars_files (config self));
          cmd = foldl (\<lambda>cmd (key, value). cmd @ [''-var='' @ key @ ''='' @ value])
                  cmd (var_overrides (config self))
      in cmd)"

definition build_workspace_command :: "TerraformRunner \<Rightarrow> string list" where
  "build_workspace_command self =
     [terraform_path self, ''workspace'', ''select'', ''-or-create=true'',
      workspace (config self)]"

text \<open>
  \<open>build_command\<close> looks the command up in a dict of the five builders and calls the
  one found without arguments, so \<open>out_file\<close> and \<open>plan_file\<close> are \<open>None\<close>.
\<close>

definition builders :: "TerraformRunner \<Rightarrow> (TerraformCommand \<times> string list) list" where
  "builders self =
     [(INIT, build_init_command self),
      (VALIDATE, build_validate_command self),
      (PLAN, build_plan_command self None),
      (APPLY, build_apply_command self None),
      (DESTROY, build_destroy_command self)]"

definition build_command :: "TerraformRunner \<Rightarrow> TerraformCommand \<Rightarrow> exn + string list" where
  "build_command self c =
     (case map_of (builders self) c of
        None \<Rightarrow> Inl (ValueError (''Unsupported command: '' @ TerraformCommand_str c))
      | Some cmd \<Rightarrow> Inr cmd)"

fun join_str :: "string \<Rightarrow> string list \<Rightarrow> string" where
  "join_str sep [] = []"
| "join_str sep [x] = x"
| "join_str sep (x # y # ys) = x @ sep @ join_str sep (y # ys)"

text \<open>
  \<open>os.chdir\<close> fails with an \<open>OSError\<close>, whose message is abridged to the path.
\<close>

definition os_chdir :: "world \<Rightarrow> string \<Rightarrow> rstate \<Rightarrow> (exn + unit) \<times> rstate" where
  "os_chdir w d st =
     (if dir_ok w d then (Inr (), log_event (Chdir d) (st\<lparr>cwd := d\<rparr>))
      else (Inl (OSError d), st))"

text \<open>
  \<open>subprocess.run(cmd, env=env, capture_output=True, text=True, check=False)\<close>: the
  child runs in the current directory, in the environment \<open>env\<close> when one is given
  and in a copy of the process environment when \<open>env\<close> is \<open>None\<close>; a non-zero exit
  is returned, not raised.
\<close>

definition subprocess_run ::
  "world \<Rightarrow> string list \<Rightarrow> (string \<times> string) list option \<Rightarrow> rstate
     \<Rightarrow> (exn + (int \<times> string \<times> string)) \<times> rstate" where
  "subprocess_run w cmd env st =
     (child_process w cmd (cwd st)
        (case env of None \<Rightarrow> environ w | Some m \<Rightarrow> map_of m),
      log_event (Spawn cmd (cwd st) env) st)"

text \<open>
  \<open>run_command\<close>. In the real branch the body of \<open>try\<close> changes directory and spawns
  the child, passing no \<open>env\<close>; the \<open>finally\<close> clause changes back on every path, and
  an exception it raises itself replaces the outcome of the body.
\<close>

definition run_command ::
  "TerraformRunner \<Rightarrow> world \<Rightarrow> string list \<Rightarrow> rstate \<Rightarrow> (exn + CommandResult) \<times> rstate" where
  "run_command self w cmd st0 =
     (let st = log_event (RunCommand cmd) st0
      in if dry_run self then
           (Inr \<lparr> return_code = 0,
                  stdout = ''[DRY RUN] Would execute: '' @ join_str '' '' cmd,
                  stderr = [],
                  result_command = cmd \<rparr>, st)
         else
           (let original_dir = cwd st;
                (body, st1) =
                  (case os_chdir w (tf_directory (config self)) st of
                     (Inl e, st') \<Rightarrow> (Inl e, st')
                   | (Inr u, st') \<Rightarrow>
                       (case subprocess_run w cmd None st' of
                          (Inl e, st'') \<Rightarrow> (Inl e, st'')
                        | (Inr (rc, out, err), st'') \<Rightarrow>
                            (Inr \<lparr> return_code = rc, stdout = out, stderr = err,
                                   result_command = cmd \<rparr>, st'')));
                (fin, st2) = os_chdir w original_dir st1
            in case fin of
                 Inl e \<Rightarrow> (Inl e, st2)
               | Inr u \<Rightarrow> (body, st2)))"

text \<open>
  \<open>run\<close>. \<open>run_main\<close> is the tail of \<open>run\<close> (build and run the main command), reached
  both when no workspace is selected and after a workspace selection that exited 0.
\<close>

definition run_main ::
  "TerraformRunner \<Rightarrow> world \<Rightarrow> rstate \<Rightarrow> (exn + CommandResult) \<times> rstate" where
  "run_main self w st =
     (case build_command self (command (config self)) of
        Inl e \<Rightarrow> (Inl e, st)
      | Inr cmd \<Rightarrow> run_command self w cmd (log_event (BuiltMain cmd) st))"

definition run ::
  "TerraformRunner \<Rightarrow> world \<Rightarrow> rstate \<Rightarrow> (exn + CommandResult) \<times> rstate" where
  "run self w st =
     (if workspace (config self) \<noteq> [] \<and> workspace (config self) \<noteq> ''default'' then
        (let workspace_cmd = build_workspace_command self;
             (workspace_result, st1) =
               run_command self w workspace_cmd (log_event (BuiltWorkspace workspace_cmd) st)
         in case workspace_result of
              Inl e \<Rightarrow> (Inl e, st1)
            | Inr res \<Rightarrow>
                if return_code res \<noteq> 0 then (Inr res, st1)
                else run_main self w st1)
      else run_main self w st)"


text \<open>
  Projections of a trace: the main commands built, the workspace commands built, the
  argument vectors handed to \<open>run_command\<close>, and the \<open>env\<close> arguments of the calls
  of \<open>subprocess.run\<close>, each in order of occurrence.
\<close>

fun main_builds :: "event list \<Rightarrow> string list list" where
  "main_builds [] = []"
| "main_builds (BuiltMain c # es) = c # main_builds es"
| "main_builds (e # es) = main_builds es"

fun workspace_builds :: "event list \<Rightarrow> string list list" where
  "workspace_builds [] = []"
| "workspace_builds (BuiltWorkspace c # es) = c # workspace_builds es"
| "workspace_builds (e # es) = workspace_builds es"

fun commands_run :: "event list \<Rightarrow> string list list" where
  "commands_run [] = []"
| "commands_run (RunCommand c # es) = c # commands_run es"
| "commands_run (e # es) = commands_run es"



section \<open>utils/logging.py\<close>

text \<open>
  \<open>setup_logging\<close>. The level name is the argument when it is
  given and non-empty, else \<open>INPUT_LOG_LEVEL\<close>, else \<open>INFO\<close>; the level is looked up
  under the upper-cased name in the \<open>logging\<close> module and set on the root logger and
  on the logger \<open>avm-action\<close>, which raises when the attribute found is not a level.
  The logger returned is used for logging only and is not modelled.
\<close>

definition setup_logging :: "string option \<Rightarrow> world \<Rightarrow> exn + unit" where
  "setup_logging level w =
     (let from_env = (case environ w ''INPUT_LOG_LEVEL'' of None \<Rightarrow> ''INFO'' | Some v \<Rightarrow> v);
          log_level = (case level of
                         Some l \<Rightarrow> if l \<noteq> [] then l else from_env
                       | None \<Rightarrow> from_env)
      in case level_error w (str_upper log_level) of
           Some e \<Rightarrow> Inl e
         | None \<Rightarrow> Inr ())"


section \<open>main.py\<close>

text \<open>
  \<open>github_output(name, value)\<close> and \<open>github_error(message)\<close> are recorded as the
  values they are called with. Calls of the logger write nothing that the run
  returns; what they contribute is the evaluation of their format arguments.
\<close>

datatype emit = Output string string | ErrorAnnotation string

record main_result =
  exit_code :: int
  emitted :: "emit list"
  events :: "event list"

text \<open>Decimal rendering of an integer, as an f-string formats it.\<close>

fun str_nat :: "nat \<Rightarrow> string" where
  "str_nat n =
     (if n < 10 then [char_of (48 + n)]
      else str_nat (n div 10) @ [char_of (48 + n mod 10)])"

definition str_int :: "int \<Rightarrow> string" where
  "str_int i = (if i < 0 then CHR ''-'' # str_nat (nat (- i)) else str_nat (nat i))"

text \<open>
  Attribute access on an \<open>ActionConfig\<close>. The dataclass of config.py declares eight
  fields and the method \<open>validate\<close>; reading any other name raises \<open>AttributeError\<close>
  with Python's message for it.
\<close>

definition ActionConfig_attributes :: "string list" where
  "ActionConfig_attributes =
     [''tf_directory'', ''tfvars_files'', ''backend_config_file'', ''command'',
      ''workspace'', ''azure'', ''var_overrides'', ''log_level'', ''validate'']"

definition ActionConfig_getattr :: "string \<Rightarrow> exn + unit" where
  "ActionConfig_getattr name =
     (if name \<in> set ActionConfig_attributes then Inr ()
      else Inl (AttributeError
        ([CHR 0x27] @ ''ActionConfig'' @ [CHR 0x27] @ '' object has no attribute '' @
         [CHR 0x27] @ name @ [CHR 0x27])))"

fun read_attributes :: "string list \<Rightarrow> exn + unit" where
  "read_attributes [] = Inr ()"
| "read_attributes (name # names) =
     (case ActionConfig_getattr name of
        Inl e \<Rightarrow> Inl e
      | Inr u \<Rightarrow> read_attributes names)"

text \<open>
  Lines 40 to 47 of \<open>main\<close>: the f-strings passed to \<open>logger.info\<close> and
  \<open>logger.debug\<close> are evaluated before the call, whatever the log level, and read
  these attributes of \<open>config\<close> in this order.
\<close>

definition main_log_config :: "ActionConfig \<Rightarrow> exn + unit" where
  "main_log_config cfg =
     read_attributes
       [''command'', ''tf_directory'', ''workspace'', ''tfvars_files'',
        ''avm_version'', ''terraform_version'', ''azurerm_version'']"

text \<open>
  Lines 49 to 77 of \<open>main\<close>: create the runner (always with \<open>dry_run=True\<close> and no
  explicit path), run it, set the outputs and choose the exit code. The inner
  \<open>except RuntimeError\<close> covers the construction of the runner only. An exception
  that leaves this part is \<open>Inl\<close> and is handled by the outer handlers in \<open>main\<close>.
\<close>

definition main_execute ::
  "ActionConfig \<Rightarrow> world \<Rightarrow> (exn + int) \<times> emit list \<times> event list" where
  "main_execute cfg w =
     (case TerraformRunner_init cfg None True w of
        Inl e \<Rightarrow>
          if is_RuntimeError e then
            (Inr 0,
             [Output ''plan_output'' ''Terraform not installed - dry run mode'',
              Output ''state_summary'' ''No state changes (dry run)''],
             [])
          else (Inl e, [], [])
      | Inr runner \<Rightarrow>
          (case run runner w \<lparr> cwd = getcwd w, trace = [] \<rparr> of
             (Inl e, st) \<Rightarrow> (Inl e, [], trace st)
           | (Inr result, st) \<Rightarrow>
               (let out = [Output ''plan_output'' (stdout result),
                           Output ''state_summary''
                             (''Exit code: '' @ str_int (return_code result))]
                in if return_code result \<noteq> 0
                   then (Inr (return_code result), out, trace st)
                   else (Inr 0, out, trace st))))"

text \<open>
  \<open>main_try\<close> is the body of the outer \<open>try\<close>, and \<open>main_handlers\<close> the two outer
  handlers, \<open>except ValueError\<close> and \<open>except Exception\<close>, which both return 1.
  \<open>main\<close> calls \<open>setup_logging()\<close> before the \<open>try\<close>: an exception raised there is
  raised by \<open>main\<close>, which then returns nothing.
\<close>

definition main_try :: "world \<Rightarrow> (exn + int) \<times> emit list \<times> event list" where
  "main_try w =
     (case load_config_from_env w of
        Inl e \<Rightarrow> (Inl e, [], [])
      | Inr cfg \<Rightarrow>
          (let errors = validate cfg
           in if errors \<noteq> [] then (Inr 1, map ErrorAnnotation errors, [])
              else (case main_log_config cfg of
                      Inl e \<Rightarrow> (Inl e, [], [])
                    | Inr u \<Rightarrow> main_execute cfg w)))"

definition main_handlers :: "(exn + int) \<times> emit list \<times> event list \<Rightarrow> main_result" where
  "main_handlers outcome =
     (case outcome of
        (Inr code, out, evs) \<Rightarrow> \<lparr> exit_code = code, emitted = out, events = evs \<rparr>
      | (Inl e, out, evs) \<Rightarrow>
          if is_ValueError e then
            \<lparr> exit_code = 1,
              emitted = out @ [ErrorAnnotation (exn_str e)],
              events = evs \<rparr>
          else
            \<lparr> exit_code = 1,
              emitted = out @ [ErrorAnnotation (''Unexpected error: '' @ exn_str e)],
              events = evs \<rparr>)"

definition main :: "world \<Rightarrow> exn + main_result" where
  "main w =
     (case setup_logging None w of
        Inl e \<Rightarrow> Inl e
      | Inr logger \<Rightarrow> Inr (main_handlers (main_try w)))"


section \<open>Configurations and worlds used as concrete inputs\<close>

text \<open>
  \<open>default_config\<close> is \<open>ActionConfig()\<close>, which is also what \<open>load_config_from_env\<close>
  returns when no \<open>INPUT_*\<close> variable is set and for \<open>minimal_environ\<close> below. \<open>basic_config\<close> and \<open>full_config\<close> are
  the fixtures of tests/unit/test\_terraform\_runner.py.
\<close>

definition default_config :: ActionConfig where
  "default_config =
     \<lparr> tf_directory = ''.'',
       tfvars_files = [],
       backend_config_file = [],
       command = PLAN,
       workspace = ''default'',
       azure = \<lparr> azure_subscription_id = [], azure_tenant_id = [], azure_client_id = [] \<rparr>,
       var_overrides = [],
       log_level = INFO \<rparr>"

definition basic_config :: ActionConfig where
  "basic_config = default_config\<lparr> tf_directory := ''./terraform'' \<rparr>"

definition full_config :: ActionConfig where
  "full_config =
     default_config
       \<lparr> tf_directory := ''./terraform'',
         tfvars_files := [''dev.tfvars'', ''common.tfvars''],
         backend_config_file := ''backend.hcl'',
         workspace := ''development'',
         var_overrides := [(''env'', ''dev''), (''count'', ''3'')] \<rparr>"

text \<open>
  \<open>staging_config\<close> is \<open>ActionConfig(workspace="staging", command=PLAN)\<close> of the test
  \<open>test_run_executes_workspace_for_non_default\<close>; \<open>unset_workspace_config\<close> is what
  \<open>load_config_from_env\<close> returns when \<open>INPUT_WORKSPACE\<close> is set to the empty string.
\<close>

definition staging_config :: ActionConfig where
  "staging_config = default_config\<lparr> workspace := ''staging'' \<rparr>"

definition unset_workspace_config :: ActionConfig where
  "unset_workspace_config = default_config\<lparr> workspace := [] \<rparr>"

text \<open>
  \<open>minimal_environ\<close> is the environment of the integration test
  \<open>test_action_runs_with_minimal_config\<close>. In the two worlds below no input is JSON,
  setting the log level fails for the name \<open>BASIC_FORMAT\<close> (an attribute of
  \<open>logging\<close> that is a format string) and for no other, every directory can be
  entered and the process starts in \<open>/repo\<close>. In the first \<open>terraform\<close> is not on the path; in the second it is at
  \<open>/usr/bin/terraform\<close> and every child process exits with the given code, printing
  nothing on standard output and \<open>failed\<close> on standard error.
\<close>

definition minimal_environ :: environ where
  "minimal_environ =
     [''INPUT_TF_DIRECTORY'' \<mapsto> ''.'',
      ''INPUT_COMMAND'' \<mapsto> ''plan'',
      ''INPUT_LOG_LEVEL'' \<mapsto> ''INFO'']"

definition world_without_terraform :: "environ \<Rightarrow> world" where
  "world_without_terraform env =
     \<lparr> environ = env,
       json_loads = (\<lambda>s. JSONDecodeError),
       level_error = (\<lambda>name. if name = ''BASIC_FORMAT''
                              then Some (ValueError
                                     (''Unknown level: '%(levelname)s:%(name)s:%(message)s'' @
                                      [CHR 0x27]))
                              else None),
       which = (\<lambda>name. None),
       dir_ok = (\<lambda>d. True),
       child_process = (\<lambda>cmd d env. Inl (OSError ''terraform'')),
       getcwd = ''/repo'' \<rparr>"

definition world_with_terraform :: "environ \<Rightarrow> int \<Rightarrow> world" where
  "world_with_terraform env rc =
     \<lparr> environ = env,
       json_loads = (\<lambda>s. JSONDecodeError),
       level_error = (\<lambda>name. if name = ''BASIC_FORMAT''
                              then Some (ValueError
                                     (''Unknown level: '%(levelname)s:%(name)s:%(message)s'' @
                                      [CHR 0x27]))
                              else None),
       which = (\<lambda>name. if name = ''terraform'' then Some ''/usr/bin/terraform'' else None),
       dir_ok = (\<lambda>d. True),
       child_process = (\<lambda>cmd d env. Inr (rc, [], ''failed'')),
       getcwd = ''/repo'' \<rparr>"

text \<open>The authenticator fixture of tests/unit/test\_azure\_auth.py.\<close>

definition test_authenticator :: AzureAuthenticator where
  "test_authenticator =
     AzureAuthenticator_init ''sub-123'' ''tenant-456'' (Some ''client-789'')"

text \<open>
  The environment variables read by \<open>create_authenticator_from_env\<close>,
  \<open>detect_auth_method\<close> and \<open>authenticate_service_principal\<close>: what a resolved
  credential is computed from.
\<close>

definition credential_variables :: "string list" where
  "credential_variables =
     [''INPUT_AZURE_SUBSCRIPTION_ID'', ''INPUT_AZURE_TENANT_ID'', ''INPUT_AZURE_CLIENT_ID'',
      ''ACTIONS_ID_TOKEN_REQUEST_TOKEN'', ''AZURE_CLIENT_SECRET'', ''ARM_CLIENT_SECRET'',
      ''MSI_ENDPOINT'', ''IDENTITY_ENDPOINT'']"


section \<open>Auxiliary facts\<close>

subsection \<open>Loops of the builders in closed form\<close>

lemma foldl_append_each:
  "foldl (\<lambda>cmd x. cmd @ [g x]) acc xs = acc @ map g xs"
  by (induction xs arbitrary: acc) simp_all

lemma foldl_append_each_pair:
  "foldl (\<lambda>cmd (k, v). cmd @ [h k v]) acc xs = acc @ map (\<lambda>(k, v). h k v) xs"
  by (induction xs arbitrary: acc) auto

lemma build_plan_command_eq:
  "build_plan_command self out_file =
     [terraform_path self, ''plan'', ''-input=false'']
     @ map (\<lambda>f. ''-var-file='' @ f) (tfvars_files (config self))
     @ map (\<lambda>(k, v). ''-var='' @ k @ ''='' @ v) (var_overrides (config self))
     @ (case out_file of Some f \<Rightarrow> if f \<noteq> [] then [''-out='' @ f] else [] | None \<Rightarrow> [])"
  by (simp add: build_plan_command_def foldl_append_each foldl_append_each_pair
      split: option.splits)

lemma build_apply_command_None_eq:
  "build_apply_command self None =
     [terraform_path self, ''apply'', ''-input=false'', ''-auto-approve'']
     @ map (\<lambda>f. ''-var-file='' @ f) (tfvars_files (config self))
     @ map (\<lambda>(k, v). ''-var='' @ k @ ''='' @ v) (var_overrides (config self))"
  by (simp add: build_apply_command_def foldl_append_each foldl_append_each_pair)

lemma build_destroy_command_eq:
  "build_destroy_command self =
     [terraform_path self, ''destroy'', ''-input=false'', ''-auto-approve'']
     @ map (\<lambda>f. ''-var-file='' @ f) (tfvars_files (config self))
     @ map (\<lambda>(k, v). ''-var='' @ k @ ''='' @ v) (var_overrides (config self))"
  by (simp add: build_destroy_command_def foldl_append_each foldl_append_each_pair)

lemma build_command_Inr:
  "\<exists>cmd. build_command self c = Inr cmd \<and> cmd \<noteq> build_workspace_command self"
  by (cases c)
     (simp_all add: build_command_def builders_def build_init_command_def
        build_validate_command_def build_plan_command_eq build_apply_command_None_eq
        build_destroy_command_eq build_workspace_command_def Let_def)

subsection \<open>Traces of \<open>run_command\<close>, \<open>run_main\<close> and \<open>run\<close>\<close>

lemma main_builds_append: "main_builds (xs @ ys) = main_builds xs @ main_builds ys"
  by (induction xs rule: main_builds.induct) simp_all

lemma workspace_builds_append:
  "workspace_builds (xs @ ys) = workspace_builds xs @ workspace_builds ys"
  by (induction xs rule: workspace_builds.induct) simp_all

lemma commands_run_append: "commands_run (xs @ ys) = commands_run xs @ commands_run ys"
  by (induction xs rule: commands_run.induct) simp_all


lemma run_command_main_builds:
  "main_builds (trace (snd (run_command self w cmd st))) = main_builds (trace st)"
  by (auto simp: run_command_def subprocess_run_def os_chdir_def log_event_def Let_def main_builds_append
      split: sum.splits prod.splits)

lemma run_command_workspace_builds:
  "workspace_builds (trace (snd (run_command self w cmd st))) = workspace_builds (trace st)"
  by (auto simp: run_command_def subprocess_run_def os_chdir_def log_event_def Let_def workspace_builds_append
      split: sum.splits prod.splits)

lemma run_command_commands_run:
  "commands_run (trace (snd (run_command self w cmd st))) = commands_run (trace st) @ [cmd]"
  by (auto simp: run_command_def subprocess_run_def os_chdir_def log_event_def Let_def commands_run_append
      split: sum.splits prod.splits)


lemma run_main_traces:
  "\<exists>cmd. build_command self (command (config self)) = Inr cmd
     \<and> commands_run (trace (snd (run_main self w st))) = commands_run (trace st) @ [cmd]
     \<and> workspace_builds (trace (snd (run_main self w st))) = workspace_builds (trace st)
     \<and> main_builds (trace (snd (run_main self w st))) = main_builds (trace st) @ [cmd]"
proof -
  obtain cmd where c: "build_command self (command (config self)) = Inr cmd"
    using build_command_Inr by blast
  show ?thesis
    using c
    by (simp add: run_main_def run_command_commands_run run_command_workspace_builds
        run_command_main_builds log_event_def commands_run_append workspace_builds_append
        main_builds_append)
qed



lemma run_dry_run_succeeds:
  assumes "dry_run self"
  shows "\<exists>res st'. run self w st = (Inr res, st') \<and> return_code res = 0"
proof -
  obtain cmd where c: "build_command self (command (config self)) = Inr cmd"
    using build_command_Inr by blast
  have m: "\<exists>res st'. run_main self w s = (Inr res, st') \<and> return_code res = 0" for s
    using assms c by (simp add: run_main_def run_command_def Let_def)
  show ?thesis
    using assms m by (auto simp: run_def run_command_def Let_def)
qed

subsection \<open>What the runner and \<open>main\<close> do not read\<close>








lemma input_keys:
  "str_upper ''azure_subscription_id'' = ''AZURE_SUBSCRIPTION_ID''"
  "str_upper ''azure_tenant_id'' = ''AZURE_TENANT_ID''"
  "str_upper ''azure_client_id'' = ''AZURE_CLIENT_ID''"
  "str_upper ''command'' = ''COMMAND''"
  "str_upper ''log_level'' = ''LOG_LEVEL''"
  "str_upper ''tf_directory'' = ''TF_DIRECTORY''"
  "str_upper ''tfvars_files'' = ''TFVARS_FILES''"
  "str_upper ''backend_config_file'' = ''BACKEND_CONFIG_FILE''"
  "str_upper ''workspace'' = ''WORKSPACE''"
  "str_upper ''var_overrides'' = ''VAR_OVERRIDES''"
  by code_simp+














lemma credentials_read_credential_variables:
  assumes "\<forall>k \<in> set credential_variables. e k = e' k"
  shows "create_authenticator_from_env e = create_authenticator_from_env e'"
    and "detect_auth_method e = detect_auth_method e'"
    and "authenticate a e = authenticate a e'"
  using assms
  by (simp_all add: credential_variables_def create_authenticator_from_env_def
      detect_auth_method_def authenticate_def authenticate_service_principal_def)

subsection \<open>The attribute reads of \<open>main\<close>\<close>

text \<open>
  \<open>ActionConfig\<close> declares no \<open>avm_version\<close>, so the debug line of \<open>main\<close> that
  formats it raises, for every configuration. Hence every run that passes validation
  leaves the \<open>try\<close> block through \<open>except Exception\<close>: \<open>main\<close> raises exactly when
  \<open>setup_logging\<close> does (as for the log level \<open>basic_format\<close>), and otherwise
  returns 1 with nothing built or run. Lines 49
  to 77, taken alone, would return 0 with the tool on the path, and would also return
  0, with the dry-run outputs, when the tool is missing.
\<close>

lemma main_log_config_raises:
  "main_log_config cfg =
     Inl (AttributeError
       ([CHR 0x27] @ ''ActionConfig'' @ [CHR 0x27] @ '' object has no attribute '' @
        [CHR 0x27] @ ''avm_version'' @ [CHR 0x27]))"
  by (simp add: main_log_config_def ActionConfig_getattr_def ActionConfig_attributes_def)

lemma main_raises_iff_setup_logging_raises:
  "(main w = Inl x) = (setup_logging None w = Inl x)"
  by (simp add: main_def split: sum.splits)

lemma main_raises_on_basic_format:
  "main (world_with_terraform (minimal_environ(''INPUT_LOG_LEVEL'' \<mapsto> ''basic_format'')) 0) =
     Inl (ValueError (''Unknown level: '%(levelname)s:%(name)s:%(message)s'' @ [CHR 0x27]))"
proof -
  have "str_upper ''basic_format'' = ''BASIC_FORMAT''"
    by code_simp
  then show ?thesis
    by (simp add: main_def setup_logging_def world_with_terraform_def)
qed


lemma main_execute_tool_found:
  assumes "which w ''terraform'' = Some p" and "p \<noteq> []"
  shows "fst (main_execute cfg w) = Inr 0"
proof -
  let ?r = "\<lparr> config = cfg, terraform_path = p, dry_run = True \<rparr>"
  have i: "TerraformRunner_init cfg None True w = Inr ?r"
    using assms by (simp add: TerraformRunner_init_def find_terraform_def)
  obtain res st' where "run ?r w \<lparr> cwd = getcwd w, trace = [] \<rparr> = (Inr res, st')"
    and "return_code res = 0"
    using run_dry_run_succeeds [of ?r w "\<lparr> cwd = getcwd w, trace = [] \<rparr>"] by auto
  then show ?thesis
    using i by (simp add: main_execute_def)
qed

lemma init_tool_missing:
  assumes "\<not> truthy (which w ''terraform'')"
  shows "TerraformRunner_init cfg None dry w =
           Inl (RuntimeError
             ''Terraform binary not found in PATH. Please ensure Terraform is installed.'')"
  using assms
  by (cases "which w ''terraform''")
     (simp_all add: TerraformRunner_init_def find_terraform_def)

lemma main_execute_tool_missing:
  assumes "\<not> truthy (which w ''terraform'')"
  shows "main_execute cfg w =
           (Inr 0,
            [Output ''plan_output'' ''Terraform not installed - dry run mode'',
             Output ''state_summary'' ''No state changes (dry run)''],
            [])"
  using init_tool_missing [OF assms, of cfg True] by (simp add: main_execute_def)

lemma load_minimal_environ:
  "load_config_from_env (world_with_terraform minimal_environ rc) = Inr default_config"
  "load_config_from_env (world_without_terraform minimal_environ) = Inr default_config"
  by (simp_all add: load_config_from_env_def get_input_def input_keys
        world_with_terraform_def world_without_terraform_def minimal_environ_def
        default_config_def parse_var_overrides_def parse_tfvars_files_def)
     code_simp+

section \<open>The claims\<close>

subsection \<open>C1: the exit code of \<open>main\<close>\<close>

text \<open>
  C1 states that \<open>main\<close> returns 0 when the run succeeds, simulated runs included,
  1 when validation fails or an error is not otherwise caught, and else the exit code
  of the failing tool invocation. The integration test
  \<open>test_action_runs_with_minimal_config\<close> asserts 0 in the environment
  \<open>minimal_environ\<close>. On the code that run returns 1: the configuration loads and
  passes validation, line 45 of \<open>main\<close> reads \<open>config.avm_version\<close>, an attribute
  \<open>ActionConfig\<close> does not have, the \<open>AttributeError\<close> reaches \<open>except Exception\<close>,
  and nothing is built or run.
\<close>

theorem main_minimal_environment_exit_code:
  "main (world_with_terraform minimal_environ 0) =
     Inr \<lparr> exit_code = 1,
           emitted = [ErrorAnnotation
             (''Unexpected error: 'ActionConfig' object has no attribute 'avm_version'' @
              [CHR 0x27])],
           events = [] \<rparr>"
proof -
  have s: "setup_logging None (world_with_terraform minimal_environ 0) = Inr ()"
    by code_simp
  show ?thesis
    by (simp add: main_def main_try_def main_handlers_def s load_minimal_environ
        main_log_config_raises default_config_def validate_def isalnum_def remove_char_def
        char_isalnum_def)
qed

subsection \<open>C2: the tool cannot be located\<close>




subsection \<open>C3: a failing workspace selection ends the run\<close>

text \<open>
  C3. When the workspace is set and is not \<open>default\<close>, and the workspace-selection
  command returns a result with a non-zero exit code, \<open>run\<close> returns that very
  result; no main command is built and the only argument vector handed to
  \<open>run_command\<close> is the workspace command.
\<close>

theorem run_aborts_on_workspace_failure:
  assumes "workspace (config self) \<noteq> []" and "workspace (config self) \<noteq> ''default''"
    and "run_command self w (build_workspace_command self)
           (log_event (BuiltWorkspace (build_workspace_command self)) st) = (Inr res, st')"
    and "return_code res \<noteq> 0"
  shows "run self w st = (Inr res, st')
     \<and> main_builds (trace st') = main_builds (trace st)
     \<and> commands_run (trace st') = commands_run (trace st) @ [build_workspace_command self]"
proof -
  have r: "run self w st = (Inr res, st')"
    using assms by (simp add: run_def)
  have st': "st' = snd (run_command self w (build_workspace_command self)
           (log_event (BuiltWorkspace (build_workspace_command self)) st))"
    using assms(3) by simp
  have b: "main_builds (trace st') = main_builds (trace st)"
    unfolding st' run_command_main_builds by (simp add: log_event_def main_builds_append)
  have c: "commands_run (trace st') = commands_run (trace st) @ [build_workspace_command self]"
    unfolding st' run_command_commands_run by (simp add: log_event_def commands_run_append)
  show ?thesis using r b c by simp
qed

text \<open>
  The theorem in real mode, workspace \<open>staging\<close>, the child exiting with code 1: the
  whole trace is the workspace command being built, run and spawned between the two
  changes of directory.
\<close>

theorem run_aborts_on_workspace_failure_witness:
  "run \<lparr> config = staging_config, terraform_path = ''/usr/bin/terraform'', dry_run = False \<rparr>
       (world_with_terraform minimal_environ 1)
       \<lparr> cwd = ''/repo'', trace = [] \<rparr>
     = (Inr \<lparr> return_code = 1, stdout = [], stderr = ''failed'',
              result_command = [''/usr/bin/terraform'', ''workspace'', ''select'',
                                ''-or-create=true'', ''staging''] \<rparr>,
        \<lparr> cwd = ''/repo'',
          trace = [BuiltWorkspace [''/usr/bin/terraform'', ''workspace'', ''select'',
                                   ''-or-create=true'', ''staging''],
                   RunCommand [''/usr/bin/terraform'', ''workspace'', ''select'',
                               ''-or-create=true'', ''staging''],
                   Chdir ''.'',
                   Spawn [''/usr/bin/terraform'', ''workspace'', ''select'',
                          ''-or-create=true'', ''staging''] ''.'' None,
                   Chdir ''/repo''] \<rparr>)"
  using run_aborts_on_workspace_failure
          [of "\<lparr> config = staging_config, terraform_path = ''/usr/bin/terraform'',
                 dry_run = False \<rparr>"
              "world_with_terraform minimal_environ 1"
              "\<lparr> cwd = ''/repo'', trace = [] \<rparr>"
              "\<lparr> return_code = 1, stdout = [], stderr = ''failed'',
                 result_command = [''/usr/bin/terraform'', ''workspace'', ''select'',
                                   ''-or-create=true'', ''staging''] \<rparr>"
              "\<lparr> cwd = ''/repo'',
                 trace = [BuiltWorkspace [''/usr/bin/terraform'', ''workspace'', ''select'',
                                          ''-or-create=true'', ''staging''],
                          RunCommand [''/usr/bin/terraform'', ''workspace'', ''select'',
                                      ''-or-create=true'', ''staging''],
                          Chdir ''.'',
                          Spawn [''/usr/bin/terraform'', ''workspace'', ''select'',
                                 ''-or-create=true'', ''staging''] ''.'' None,
                          Chdir ''/repo''] \<rparr>"]
  by (simp add: run_command_def subprocess_run_def os_chdir_def log_event_def build_workspace_command_def
      staging_config_def default_config_def world_with_terraform_def Let_def)

subsection \<open>C4: when the workspace command is issued\<close>

text \<open>
  C4, as amended. For every runner, in either mode and in every world, the workspace
  command is among the argument vectors handed to \<open>run_command\<close> if and only if the
  configured workspace is non-empty and differs from \<open>default\<close>; when it is issued it
  is the first one, and it is the select-or-create command naming the configured
  workspace.
\<close>

theorem workspace_command_issued_iff:
  "((build_workspace_command self
       \<in> set (commands_run (trace (snd (run self w \<lparr> cwd = d, trace = [] \<rparr>)))))
      = (workspace (config self) \<noteq> [] \<and> workspace (config self) \<noteq> ''default''))
   \<and> (workspace (config self) \<noteq> [] \<and> workspace (config self) \<noteq> ''default'' \<longrightarrow>
        hd (commands_run (trace (snd (run self w \<lparr> cwd = d, trace = [] \<rparr>))))
          = [terraform_path self, ''workspace'', ''select'', ''-or-create=true'',
             workspace (config self)])"
proof -
  let ?st = "\<lparr> cwd = d, trace = [] \<rparr>"
  let ?ws = "build_workspace_command self"
  let ?stw = "log_event (BuiltWorkspace ?ws) ?st"
  have no: "?ws \<notin> set (commands_run (trace (snd (run_main self w st))))"
    if "?ws \<notin> set (commands_run (trace st))" for st
    using that run_main_traces [of self w st] build_command_Inr [of self "command (config self)"]
    by auto
  show ?thesis
  proof (cases "workspace (config self) \<noteq> [] \<and> workspace (config self) \<noteq> ''default''")
    case False
    then have "run self w ?st = run_main self w ?st"
      by (auto simp: run_def)
    then show ?thesis
      using False no [of ?st] by auto
  next
    case True
    obtain r st1 where rc: "run_command self w ?ws ?stw = (r, st1)"
      by (cases "run_command self w ?ws ?stw")
    have c1: "commands_run (trace st1) = [?ws]"
      using run_command_commands_run [of self w ?ws ?stw] rc
      by (simp add: log_event_def)
    have "\<exists>rest. commands_run (trace (snd (run self w ?st))) = ?ws # rest"
    proof (cases r)
      case (Inl e)
      then show ?thesis using True rc c1 by (simp add: run_def)
    next
      case (Inr res)
      show ?thesis
      proof (cases "return_code res \<noteq> 0")
        case True
        then show ?thesis using \<open>workspace (config self) \<noteq> [] \<and> _\<close> rc c1 Inr
          by (simp add: run_def)
      next
        case False
        then have "run self w ?st = run_main self w st1"
          using \<open>workspace (config self) \<noteq> [] \<and> _\<close> rc Inr by (simp add: run_def)
        then show ?thesis
          using run_main_traces [of self w st1] c1 by auto
      qed
    qed
    then obtain rest where "commands_run (trace (snd (run self w ?st))) = ?ws # rest"
      by blast
    then show ?thesis
      using True by (simp add: build_workspace_command_def)
  qed
qed

text \<open>
  The theorem at \<open>full_config\<close> (workspace \<open>development\<close>: issued) and at
  \<open>basic_config\<close> (workspace \<open>default\<close>: not issued).
\<close>

theorem workspace_command_issued_iff_witness:
  "[''/usr/bin/terraform'', ''workspace'', ''select'', ''-or-create=true'', ''development'']
     \<in> set (commands_run (trace (snd (run
           \<lparr> config = full_config, terraform_path = ''/usr/bin/terraform'', dry_run = True \<rparr>
           (world_with_terraform minimal_environ 0)
           \<lparr> cwd = ''/repo'', trace = [] \<rparr>))))
   \<and> [''/usr/bin/terraform'', ''workspace'', ''select'', ''-or-create=true'', ''default'']
     \<notin> set (commands_run (trace (snd (run
           \<lparr> config = basic_config, terraform_path = ''/usr/bin/terraform'', dry_run = True \<rparr>
           (world_with_terraform minimal_environ 0)
           \<lparr> cwd = ''/repo'', trace = [] \<rparr>))))"
  using workspace_command_issued_iff
          [of "\<lparr> config = full_config, terraform_path = ''/usr/bin/terraform'',
                 dry_run = True \<rparr>"
              "world_with_terraform minimal_environ 0" "''/repo''"]
        workspace_command_issued_iff
          [of "\<lparr> config = basic_config, terraform_path = ''/usr/bin/terraform'',
                 dry_run = True \<rparr>"
              "world_with_terraform minimal_environ 0" "''/repo''"]
  by (simp add: build_workspace_command_def full_config_def basic_config_def
      default_config_def)

text \<open>
  C4 as stated lets the command be issued whenever the workspace differs from
  \<open>default\<close>. The configuration with the empty workspace passes \<open>validate\<close> and its
  workspace differs from \<open>default\<close>, yet the run builds and runs the main command
  only.
\<close>

theorem unset_workspace_is_valid_and_selects_nothing:
  "validate unset_workspace_config = []
   \<and> workspace unset_workspace_config \<noteq> ''default''
   \<and> trace (snd (run
        \<lparr> config = unset_workspace_config, terraform_path = ''/usr/bin/terraform'',
          dry_run = True \<rparr>
        (world_with_terraform minimal_environ 0)
        \<lparr> cwd = ''/repo'', trace = [] \<rparr>))
      = [BuiltMain [''/usr/bin/terraform'', ''plan'', ''-input=false''],
         RunCommand [''/usr/bin/terraform'', ''plan'', ''-input=false'']]"
  by (simp add: unset_workspace_config_def default_config_def validate_def run_def
      run_main_def run_command_def build_command_def builders_def build_plan_command_def
      log_event_def Let_def)

subsection \<open>C5: precedence of the authentication methods\<close>

text \<open>
  C5. \<open>detect_auth_method\<close> is a total function of the environment snapshot, and the
  first matching rule decides: a set, non-empty OIDC request token gives \<open>OIDC\<close>;
  else a set, non-empty client secret under either name gives \<open>SERVICE_PRINCIPAL\<close>;
  else a set, non-empty managed-identity endpoint under either name gives
  \<open>MANAGED_IDENTITY\<close>; else \<open>CLI\<close>. The four cases cover every environment.
\<close>

theorem detect_auth_method_precedence:
  "(truthy (env ''ACTIONS_ID_TOKEN_REQUEST_TOKEN'') \<longrightarrow> detect_auth_method env = OIDC)
   \<and> (\<not> truthy (env ''ACTIONS_ID_TOKEN_REQUEST_TOKEN'')
        \<and> (truthy (env ''AZURE_CLIENT_SECRET'') \<or> truthy (env ''ARM_CLIENT_SECRET''))
        \<longrightarrow> detect_auth_method env = SERVICE_PRINCIPAL)
   \<and> (\<not> truthy (env ''ACTIONS_ID_TOKEN_REQUEST_TOKEN'')
        \<and> \<not> truthy (env ''AZURE_CLIENT_SECRET'') \<and> \<not> truthy (env ''ARM_CLIENT_SECRET'')
        \<and> (truthy (env ''MSI_ENDPOINT'') \<or> truthy (env ''IDENTITY_ENDPOINT''))
        \<longrightarrow> detect_auth_method env = MANAGED_IDENTITY)
   \<and> (\<not> truthy (env ''ACTIONS_ID_TOKEN_REQUEST_TOKEN'')
        \<and> \<not> truthy (env ''AZURE_CLIENT_SECRET'') \<and> \<not> truthy (env ''ARM_CLIENT_SECRET'')
        \<and> \<not> truthy (env ''MSI_ENDPOINT'') \<and> \<not> truthy (env ''IDENTITY_ENDPOINT'')
        \<longrightarrow> detect_auth_method env = CLI)"
  by (simp add: detect_auth_method_def)

text \<open>
  One environment for each rule: OIDC wins over a service-principal secret, and a
  service-principal secret wins over a managed-identity endpoint.
\<close>

theorem detect_auth_method_precedence_witness:
  "detect_auth_method [''ACTIONS_ID_TOKEN_REQUEST_TOKEN'' \<mapsto> ''token'',
                       ''AZURE_CLIENT_SECRET'' \<mapsto> ''secret''] = OIDC
   \<and> detect_auth_method [''ARM_CLIENT_SECRET'' \<mapsto> ''secret'',
                         ''MSI_ENDPOINT'' \<mapsto> ''http://localhost''] = SERVICE_PRINCIPAL
   \<and> detect_auth_method [''IDENTITY_ENDPOINT'' \<mapsto> ''http://localhost''] = MANAGED_IDENTITY
   \<and> detect_auth_method Map.empty = CLI"
  using detect_auth_method_precedence
          [of "[''ACTIONS_ID_TOKEN_REQUEST_TOKEN'' \<mapsto> ''token'',
                ''AZURE_CLIENT_SECRET'' \<mapsto> ''secret'']"]
        detect_auth_method_precedence
          [of "[''ARM_CLIENT_SECRET'' \<mapsto> ''secret'',
                ''MSI_ENDPOINT'' \<mapsto> ''http://localhost'']"]
        detect_auth_method_precedence
          [of "[''IDENTITY_ENDPOINT'' \<mapsto> ''http://localhost'']"]
        detect_auth_method_precedence [of Map.empty]
  by simp

subsection \<open>C6: \<open>apply\<close> with and without a plan file\<close>

text \<open>
  C6. With a plan file given, the apply command is the four fixed arguments followed
  by the plan file and nothing else, whatever variable files and overrides the
  configuration holds. Without one, the flag of every variable file and of every
  override of the configuration is in the command.
\<close>

theorem build_apply_command_plan_file:
  "(f \<noteq> [] \<longrightarrow>
      build_apply_command self (Some f)
        = [terraform_path self, ''apply'', ''-input=false'', ''-auto-approve'', f])
   \<and> (\<forall>x \<in> set (tfvars_files (config self)).
        ''-var-file='' @ x \<in> set (build_apply_command self None))
   \<and> (\<forall>(k, v) \<in> set (var_overrides (config self)).
        ''-var='' @ k @ ''='' @ v \<in> set (build_apply_command self None))"
  by (auto simp: build_apply_command_None_eq) (simp add: build_apply_command_def)

text \<open>The theorem at \<open>full_config\<close> and the plan file \<open>plan.tfplan\<close>.\<close>

theorem build_apply_command_plan_file_witness:
  "build_apply_command
     \<lparr> config = full_config, terraform_path = ''/usr/bin/terraform'', dry_run = True \<rparr>
     (Some ''plan.tfplan'')
     = [''/usr/bin/terraform'', ''apply'', ''-input=false'', ''-auto-approve'', ''plan.tfplan'']
   \<and> ''-var-file=dev.tfvars'' \<in> set (build_apply_command
         \<lparr> config = full_config, terraform_path = ''/usr/bin/terraform'', dry_run = True \<rparr>
         None)
   \<and> ''-var=env=dev'' \<in> set (build_apply_command
         \<lparr> config = full_config, terraform_path = ''/usr/bin/terraform'', dry_run = True \<rparr>
         None)"
  using build_apply_command_plan_file
          [of "''plan.tfplan''"
              "\<lparr> config = full_config, terraform_path = ''/usr/bin/terraform'',
                 dry_run = True \<rparr>"]
  by (simp add: full_config_def default_config_def)

subsection \<open>C7: the order of the arguments\<close>

text \<open>
  C7. For plan, for apply without a plan file and for destroy, the command is the tool
  path, the sub-command, the flag \<open>-input=false\<close> (followed by \<open>-auto-approve\<close> for
  apply and destroy), then one \<open>-var-file\<close> flag per variable file in the order of
  the configuration, then one \<open>-var\<close> flag per override in the order of the dict, and
  for plan the \<open>-out\<close> flag last when an output file is given.
\<close>

theorem builders_argument_order:
  "build_plan_command self out_file =
     [terraform_path self, ''plan'', ''-input=false'']
     @ map (\<lambda>f. ''-var-file='' @ f) (tfvars_files (config self))
     @ map (\<lambda>(k, v). ''-var='' @ k @ ''='' @ v) (var_overrides (config self))
     @ (case out_file of Some f \<Rightarrow> if f \<noteq> [] then [''-out='' @ f] else [] | None \<Rightarrow> [])
   \<and> build_apply_command self None =
     [terraform_path self, ''apply'', ''-input=false'', ''-auto-approve'']
     @ map (\<lambda>f. ''-var-file='' @ f) (tfvars_files (config self))
     @ map (\<lambda>(k, v). ''-var='' @ k @ ''='' @ v) (var_overrides (config self))
   \<and> build_destroy_command self =
     [terraform_path self, ''destroy'', ''-input=false'', ''-auto-approve'']
     @ map (\<lambda>f. ''-var-file='' @ f) (tfvars_files (config self))
     @ map (\<lambda>(k, v). ''-var='' @ k @ ''='' @ v) (var_overrides (config self))"
  using build_plan_command_eq [of self out_file] build_apply_command_None_eq [of self]
    build_destroy_command_eq [of self]
  by simp

text \<open>The plan and destroy commands of \<open>full_config\<close>.\<close>

theorem builders_argument_order_witness:
  "build_plan_command
     \<lparr> config = full_config, terraform_path = ''/usr/bin/terraform'', dry_run = True \<rparr>
     (Some ''plan.tfplan'')
     = [''/usr/bin/terraform'', ''plan'', ''-input=false'',
        ''-var-file=dev.tfvars'', ''-var-file=common.tfvars'',
        ''-var=env=dev'', ''-var=count=3'', ''-out=plan.tfplan'']
   \<and> build_destroy_command
     \<lparr> config = full_config, terraform_path = ''/usr/bin/terraform'', dry_run = True \<rparr>
     = [''/usr/bin/terraform'', ''destroy'', ''-input=false'', ''-auto-approve'',
        ''-var-file=dev.tfvars'', ''-var-file=common.tfvars'',
        ''-var=env=dev'', ''-var=count=3'']"
  using builders_argument_order
          [of "\<lparr> config = full_config, terraform_path = ''/usr/bin/terraform'',
                 dry_run = True \<rparr>" "Some ''plan.tfplan''"]
  by (simp add: full_config_def default_config_def)

subsection \<open>C8: service-principal authentication\<close>

text \<open>
  C8. When neither \<open>AZURE_CLIENT_SECRET\<close> nor \<open>ARM_CLIENT_SECRET\<close> is set to a
  non-empty value, \<open>authenticate_service_principal\<close> raises a \<open>ValueError\<close> whose
  message contains both names. When \<open>AZURE_CLIENT_SECRET\<close> holds a non-empty value,
  or it does not and \<open>ARM_CLIENT_SECRET\<close> does, the credentials returned carry that
  value as the secret and \<open>SERVICE_PRINCIPAL\<close> as the method.
\<close>

theorem authenticate_service_principal_secret:
  "(\<not> truthy (env ''AZURE_CLIENT_SECRET'') \<and> \<not> truthy (env ''ARM_CLIENT_SECRET'') \<longrightarrow>
      (\<exists>msg. authenticate_service_principal self env = Inl (ValueError msg)
         \<and> sublist ''AZURE_CLIENT_SECRET'' msg \<and> sublist ''ARM_CLIENT_SECRET'' msg))
   \<and> (env ''AZURE_CLIENT_SECRET'' = Some v \<and> v \<noteq> [] \<longrightarrow>
      authenticate_service_principal self env =
        Inr \<lparr> subscription_id = auth_subscription_id self,
              tenant_id = auth_tenant_id self,
              client_id = auth_client_id self,
              client_secret = v, token = [], auth_method = SERVICE_PRINCIPAL \<rparr>)
   \<and> (\<not> truthy (env ''AZURE_CLIENT_SECRET'') \<and> env ''ARM_CLIENT_SECRET'' = Some v \<and> v \<noteq> [] \<longrightarrow>
      authenticate_service_principal self env =
        Inr \<lparr> subscription_id = auth_subscription_id self,
              tenant_id = auth_tenant_id self,
              client_id = auth_client_id self,
              client_secret = v, token = [], auth_method = SERVICE_PRINCIPAL \<rparr>)"
proof -
  let ?msg = "''Service principal authentication requires AZURE_CLIENT_SECRET '' @
              ''or ARM_CLIENT_SECRET environment variable.''"
  have m1: "?msg = ''Service principal authentication requires '' @ ''AZURE_CLIENT_SECRET'' @
              '' or ARM_CLIENT_SECRET environment variable.''"
    by simp
  have m2: "?msg = ''Service principal authentication requires AZURE_CLIENT_SECRET or '' @
              ''ARM_CLIENT_SECRET'' @ '' environment variable.''"
    by simp
  have s1: "sublist ''AZURE_CLIENT_SECRET'' ?msg"
    unfolding m1 by (rule sublist_appendI)
  have s2: "sublist ''ARM_CLIENT_SECRET'' ?msg"
    unfolding m2 by (rule sublist_appendI)
  have absent: "authenticate_service_principal self env = Inl (ValueError ?msg)"
    if "\<not> truthy (env ''AZURE_CLIENT_SECRET'')" "\<not> truthy (env ''ARM_CLIENT_SECRET'')"
    using that
    by (cases "env ''AZURE_CLIENT_SECRET''"; cases "env ''ARM_CLIENT_SECRET''")
       (simp_all add: authenticate_service_principal_def py_or_def)
  have first: "authenticate_service_principal self env =
        Inr \<lparr> subscription_id = auth_subscription_id self,
              tenant_id = auth_tenant_id self,
              client_id = auth_client_id self,
              client_secret = v, token = [], auth_method = SERVICE_PRINCIPAL \<rparr>"
    if "env ''AZURE_CLIENT_SECRET'' = Some v" "v \<noteq> []"
    using that by (simp add: authenticate_service_principal_def py_or_def)
  have second: "authenticate_service_principal self env =
        Inr \<lparr> subscription_id = auth_subscription_id self,
              tenant_id = auth_tenant_id self,
              client_id = auth_client_id self,
              client_secret = v, token = [], auth_method = SERVICE_PRINCIPAL \<rparr>"
    if "\<not> truthy (env ''AZURE_CLIENT_SECRET'')" "env ''ARM_CLIENT_SECRET'' = Some v" "v \<noteq> []"
    using that by (simp add: authenticate_service_principal_def py_or_def)
  show ?thesis
    using absent s1 s2 first second by blast
qed

text \<open>
  The theorem for the test authenticator: in the empty environment, with the first
  name set, and with the first name empty and the second set.
\<close>

theorem authenticate_service_principal_secret_witness:
  "(\<exists>msg. authenticate_service_principal test_authenticator Map.empty = Inl (ValueError msg)
       \<and> sublist ''AZURE_CLIENT_SECRET'' msg \<and> sublist ''ARM_CLIENT_SECRET'' msg)
   \<and> authenticate_service_principal test_authenticator
        [''AZURE_CLIENT_SECRET'' \<mapsto> ''my-secret'']
      = Inr \<lparr> subscription_id = ''sub-123'', tenant_id = ''tenant-456'',
              client_id = ''client-789'', client_secret = ''my-secret'', token = [],
              auth_method = SERVICE_PRINCIPAL \<rparr>
   \<and> authenticate_service_principal test_authenticator
        [''AZURE_CLIENT_SECRET'' \<mapsto> [], ''ARM_CLIENT_SECRET'' \<mapsto> ''arm-secret'']
      = Inr \<lparr> subscription_id = ''sub-123'', tenant_id = ''tenant-456'',
              client_id = ''client-789'', client_secret = ''arm-secret'', token = [],
              auth_method = SERVICE_PRINCIPAL \<rparr>"
  using authenticate_service_principal_secret
          [where env = Map.empty and self = test_authenticator]
        authenticate_service_principal_secret
          [where env = "[''AZURE_CLIENT_SECRET'' \<mapsto> ''my-secret'']"
             and self = test_authenticator and v = "''my-secret''"]
        authenticate_service_principal_secret
          [where env = "[''AZURE_CLIENT_SECRET'' \<mapsto> [],
                         ''ARM_CLIENT_SECRET'' \<mapsto> ''arm-secret'']"
             and self = test_authenticator and v = "''arm-secret''"]
  by (simp add: test_authenticator_def AzureAuthenticator_init_def)

subsection \<open>C9: the projection to provider variables\<close>

text \<open>
  C9. For every credential the projection maps \<open>ARM_SUBSCRIPTION_ID\<close> and
  \<open>ARM_TENANT_ID\<close> to the two identifiers; \<open>ARM_CLIENT_ID\<close> is a key exactly when
  the client identifier is non-empty and \<open>ARM_CLIENT_SECRET\<close> exactly when the
  secret is non-empty, each with the credential's value; a non-empty token gives both
  \<open>ARM_OIDC_TOKEN\<close> and \<open>ARM_USE_OIDC = true\<close> and an empty one neither; the
  projection has no other key.
\<close>

theorem set_terraform_env_vars_projection:
  "set_terraform_env_vars c ''ARM_SUBSCRIPTION_ID'' = Some (subscription_id c)
   \<and> set_terraform_env_vars c ''ARM_TENANT_ID'' = Some (tenant_id c)
   \<and> (''ARM_CLIENT_ID'' \<in> dom (set_terraform_env_vars c)) = (client_id c \<noteq> [])
   \<and> (''ARM_CLIENT_SECRET'' \<in> dom (set_terraform_env_vars c)) = (client_secret c \<noteq> [])
   \<and> (token c \<noteq> [] \<longrightarrow>
        set_terraform_env_vars c ''ARM_OIDC_TOKEN'' = Some (token c)
        \<and> set_terraform_env_vars c ''ARM_USE_OIDC'' = Some ''true'')
   \<and> (client_id c \<noteq> [] \<longrightarrow> set_terraform_env_vars c ''ARM_CLIENT_ID'' = Some (client_id c))
   \<and> (client_secret c \<noteq> [] \<longrightarrow>
        set_terraform_env_vars c ''ARM_CLIENT_SECRET'' = Some (client_secret c))
   \<and> (token c = [] \<longrightarrow>
        set_terraform_env_vars c ''ARM_OIDC_TOKEN'' = None
        \<and> set_terraform_env_vars c ''ARM_USE_OIDC'' = None)
   \<and> dom (set_terraform_env_vars c)
        \<subseteq> {''ARM_SUBSCRIPTION_ID'', ''ARM_TENANT_ID'', ''ARM_CLIENT_ID'',
            ''ARM_CLIENT_SECRET'', ''ARM_OIDC_TOKEN'', ''ARM_USE_OIDC''}"
  by (auto simp: set_terraform_env_vars_def Let_def dom_def split: if_splits)

text \<open>
  The theorem at an OIDC credential without a secret and at a service-principal
  credential with one.
\<close>

theorem set_terraform_env_vars_projection_witness:
  "set_terraform_env_vars
     \<lparr> subscription_id = ''sub-123'', tenant_id = ''tenant-456'', client_id = ''client-789'',
       client_secret = [], token = ''oidc-token'', auth_method = OIDC \<rparr> ''ARM_OIDC_TOKEN''
     = Some ''oidc-token''
   \<and> set_terraform_env_vars
     \<lparr> subscription_id = ''sub-123'', tenant_id = ''tenant-456'', client_id = ''client-789'',
       client_secret = [], token = ''oidc-token'', auth_method = OIDC \<rparr> ''ARM_USE_OIDC''
     = Some ''true''
   \<and> ''ARM_CLIENT_SECRET'' \<notin> dom (set_terraform_env_vars
     \<lparr> subscription_id = ''sub-123'', tenant_id = ''tenant-456'', client_id = ''client-789'',
       client_secret = [], token = ''oidc-token'', auth_method = OIDC \<rparr>)
   \<and> set_terraform_env_vars
     \<lparr> subscription_id = ''sub-123'', tenant_id = ''tenant-456'', client_id = ''client-789'',
       client_secret = ''secret'', token = [], auth_method = SERVICE_PRINCIPAL \<rparr>
       ''ARM_CLIENT_SECRET''
     = Some ''secret''"
  using set_terraform_env_vars_projection
          [of "\<lparr> subscription_id = ''sub-123'', tenant_id = ''tenant-456'',
                 client_id = ''client-789'', client_secret = [], token = ''oidc-token'',
                 auth_method = OIDC \<rparr>"]
        set_terraform_env_vars_projection
          [of "\<lparr> subscription_id = ''sub-123'', tenant_id = ''tenant-456'',
                 client_id = ''client-789'', client_secret = ''secret'', token = [],
                 auth_method = SERVICE_PRINCIPAL \<rparr>"]
  by simp

subsection \<open>C10: the orchestration does not depend on credentials\<close>



end
